theory Spec2Isabelle
  imports Main "HOL-Library.Word"
begin

section \<open>The image-format sniffer \<open>imghdr.what\<close>\<close>

text \<open>
  The repository is one Python function, \<open>what(file, h=None)\<close> in \<open>imghdr.py\<close>. It
  obtains up to 32 bytes (from \<open>h\<close>, from a bytes-like \<open>file\<close>, or by opening the path
  \<open>str(file)\<close>), asks Pillow for the format when Pillow could be imported, and otherwise
  compares the leading bytes with five fixed signatures.

  Everything the function touches outside its arguments is a parameter of the model:
  the file system (\<open>open\<close> and \<open>read\<close>, each of which may raise) and Pillow (absent, or
  a decoder that raises or reports \<open>img.format\<close>). A raised exception is the \<open>Inl\<close>
  branch of a sum; every \<open>try ... except Exception\<close> of the source is a case
  distinction on it. The file operations performed are recorded in a trace.
\<close>

subsection \<open>Data\<close>

type_synonym byte = "8 word"
type_synonym bytes = "byte list"

text \<open>Instances of subclasses of Python's \<open>Exception\<close>, as raised by \<open>open\<close>, \<open>read\<close>
  and \<open>Image.open\<close>.\<close>

datatype exn =
    FileNotFoundError
  | PermissionError
  | IsADirectoryError
  | ValueError
  | OSError
  | UnidentifiedImageError
  | OtherException string

text \<open>The argument \<open>file: str | bytes | None\<close>; the \<open>isinstance\<close> test of the source
  also accepts a \<open>bytearray\<close>.\<close>

datatype file_arg =
    PathArg string
  | BytesArg bytes
  | BytearrayArg bytes
  | NoneArg

datatype io_event = Open string | Read nat | Close

text \<open>An opened binary file is what reading it yields: its bytes up to the end of the
  file, or the exception raised by \<open>read\<close> (or by closing the file afterwards).\<close>

type_synonym file_obj = "exn + bytes"

record environment =
  open_rb :: "string \<Rightarrow> exn + file_obj"
    \<comment> \<open>\<open>open(path, "rb")\<close>: raises, or gives a file object\<close>
  pil :: "(bytes \<Rightarrow> exn + string option) option"
    \<comment> \<open>\<open>None\<close> when \<open>from PIL import Image\<close> failed (lines 18-23); otherwise
        \<open>Image.open(BytesIO(data)).format\<close>, which raises or is a \<open>str\<close> or \<open>None\<close>\<close>

subsection \<open>Python primitives\<close>

text \<open>\<open>bytes.startswith(prefix)\<close>.\<close>

fun startswith :: "bytes \<Rightarrow> bytes \<Rightarrow> bool" where
  "startswith d [] = True"
| "startswith [] (p # ps) = False"
| "startswith (x # xs) (p # ps) = (x = p \<and> startswith xs ps)"

text \<open>An ASCII bytes literal such as \<open>b"GIF87a"\<close>.\<close>

definition ascii :: "string \<Rightarrow> bytes" where
  "ascii s = map of_char s"

text \<open>\<open>str.lower()\<close>, with a \<open>char\<close> read as the code point of that number (Latin-1):
  the upper-case letters there are \<open>A\<close>-\<open>Z\<close> and \<open>U+00C0\<close>-\<open>U+00DE\<close> without
  \<open>U+00D7\<close>, each 32 below its lower-case letter.\<close>

definition lower_char :: "char \<Rightarrow> char" where
  "lower_char c =
     (let n = (of_char c :: nat)
      in if (65 \<le> n \<and> n \<le> 90) \<or> (192 \<le> n \<and> n \<le> 214) \<or> (216 \<le> n \<and> n \<le> 222)
         then char_of (n + 32) else c)"

definition lower :: "string \<Rightarrow> string" where
  "lower s = map lower_char s"

text \<open>\<open>f.read(n)\<close> on a buffered binary file: up to \<open>n\<close> bytes, fewer only at the end
  of the file.\<close>

definition read :: "file_obj \<Rightarrow> nat \<Rightarrow> exn + bytes" where
  "read f n = (case f of Inl e \<Rightarrow> Inl e | Inr content \<Rightarrow> Inr (take n content))"

subsection \<open>The function \<open>what\<close>\<close>

text \<open>Lines 45-46: \<open>with open(path, "rb") as f: data = f.read(32)\<close>. The \<open>with\<close>
  block closes the file on every exit once \<open>open\<close> has succeeded.\<close>

definition open_and_read :: "environment \<Rightarrow> string \<Rightarrow> (exn + bytes) \<times> io_event list" where
  "open_and_read env path =
     (case open_rb env path of
        Inl e \<Rightarrow> (Inl e, [Open path])
      | Inr f \<Rightarrow> (read f 32, [Open path, Read 32, Close]))"

text \<open>Lines 42-46, the body of the first \<open>try\<close>. \<open>str(file)\<close> is the path itself for
  a \<open>str\<close> and the text \<open>None\<close> for \<open>None\<close>.\<close>

definition read_chunk :: "environment \<Rightarrow> file_arg \<Rightarrow> (exn + bytes) \<times> io_event list" where
  "read_chunk env file =
     (case file of
        BytesArg b \<Rightarrow> (Inr (take 32 b), [])
      | BytearrayArg b \<Rightarrow> (Inr (take 32 b), [])
      | PathArg p \<Rightarrow> open_and_read env p
      | NoneArg \<Rightarrow> open_and_read env ''None'')"

text \<open>Lines 51-59: Pillow, when present. \<open>None\<close> stands for falling through to the
  header checks: Pillow missing, \<open>Image.open\<close> raising, or a falsy \<open>fmt\<close>.\<close>

definition pillow_format :: "environment \<Rightarrow> bytes \<Rightarrow> string option" where
  "pillow_format env data =
     (case pil env of
        None \<Rightarrow> None
      | Some image_open \<Rightarrow>
          (case image_open data of
             Inl e \<Rightarrow> None
           | Inr None \<Rightarrow> None
           | Inr (Some fmt) \<Rightarrow> if fmt \<noteq> [] then Some (lower fmt) else None))"

text \<open>Lines 62-77: the header checks.\<close>

definition header_checks :: "bytes \<Rightarrow> string option" where
  "header_checks data =
     (if data = [] then None
      else if startswith data [0xFF, 0xD8] then Some ''jpeg''
      else if startswith data (0x89 # ascii ''PNG'' @ [0x0D, 0x0A, 0x1A, 0x0A]) then Some ''png''
      else if take 6 data = ascii ''GIF87a'' \<or> take 6 data = ascii ''GIF89a'' then Some ''gif''
      else if startswith data (ascii ''BM'') then Some ''bmp''
      else if startswith data (ascii ''II'') \<or> startswith data (ascii ''MM'') then Some ''tiff''
      else None)"

text \<open>Lines 36-48: \<open>data = h\<close>, and the chunk read from \<open>file\<close> when \<open>h\<close> is \<open>None\<close>.\<close>

definition obtain_data ::
  "environment \<Rightarrow> file_arg \<Rightarrow> bytes option \<Rightarrow> (exn + bytes) \<times> io_event list" where
  "obtain_data env file h =
     (case h of
        Some data \<Rightarrow> (Inr data, [])
      | None \<Rightarrow> read_chunk env file)"

text \<open>The whole function. The first component is what the caller sees: \<open>Inr r\<close> for a
  returned value (\<open>None\<close> or a string), \<open>Inl e\<close> for an exception that escapes. The
  second component is the file operations performed.\<close>

definition what ::
  "environment \<Rightarrow> file_arg \<Rightarrow> bytes option \<Rightarrow> (exn + string option) \<times> io_event list" where
  "what env file h =
     (case obtain_data env file h of
        (Inl e, tr) \<Rightarrow> (Inr None, tr)
      | (Inr data, tr) \<Rightarrow>
          (case pillow_format env data of
             Some fmt \<Rightarrow> (Inr (Some fmt), tr)
           | None \<Rightarrow> (Inr (header_checks data), tr)))"

subsection \<open>Vocabulary of the properties\<close>

text \<open>The call \<open>what(file, h)\<close> passes the byte buffer \<open>d\<close>: as the header \<open>h\<close>, or,
  with no header, as a \<open>bytes\<close> or \<open>bytearray\<close> in \<open>file\<close>.\<close>

definition buffer_call :: "file_arg \<Rightarrow> bytes option \<Rightarrow> bytes \<Rightarrow> bool" where
  "buffer_call file h d \<longleftrightarrow>
     h = Some d \<or> (h = None \<and> (file = BytesArg d \<or> file = BytearrayArg d))"

text \<open>The five signature rules of lines 65-75 one by one, and their evaluation in a
  given order with the first match winning. \<open>listed_order\<close> is the order of the source.\<close>

datatype rule = Jpeg | Png | Gif | Bmp | Tiff

fun matches :: "rule \<Rightarrow> bytes \<Rightarrow> bool" where
  "matches Jpeg data = startswith data [0xFF, 0xD8]"
| "matches Png data = startswith data (0x89 # ascii ''PNG'' @ [0x0D, 0x0A, 0x1A, 0x0A])"
| "matches Gif data = (take 6 data = ascii ''GIF87a'' \<or> take 6 data = ascii ''GIF89a'')"
| "matches Bmp data = startswith data (ascii ''BM'')"
| "matches Tiff data = (startswith data (ascii ''II'') \<or> startswith data (ascii ''MM''))"

fun label :: "rule \<Rightarrow> string" where
  "label Jpeg = ''jpeg''"
| "label Png = ''png''"
| "label Gif = ''gif''"
| "label Bmp = ''bmp''"
| "label Tiff = ''tiff''"

definition listed_order :: "rule list" where
  "listed_order = [Jpeg, Png, Gif, Bmp, Tiff]"

fun first_match :: "rule list \<Rightarrow> bytes \<Rightarrow> string option" where
  "first_match [] data = None"
| "first_match (r # rs) data = (if matches r data then Some (label r) else first_match rs data)"

subsection \<open>Example environments\<close>

text \<open>A file system with an empty file, a file holding a PNG header under the name
  \<open>None\<close>, a file that opens but cannot be read, and nothing else.\<close>

definition example_files :: "string \<Rightarrow> exn + file_obj" where
  "example_files path =
     (if path = ''/tmp/empty'' then Inr (Inr [])
      else if path = ''None'' then Inr (Inr [0x89, 0x50, 0x4E, 0x47, 0x0D, 0x0A, 0x1A, 0x0A, 0x00, 0x00])
      else if path = ''/tmp/unreadable'' then Inr (Inl OSError)
      else Inl FileNotFoundError)"

text \<open>A stand-in for Pillow: it knows JPEG, reports no format for the single byte
  \<open>00\<close> and an empty one for the single byte \<open>01\<close>, and raises on everything else.\<close>

definition example_decoder :: "bytes \<Rightarrow> exn + string option" where
  "example_decoder data =
     (if take 2 data = [0xFF, 0xD8] then Inr (Some ''JPEG'')
      else if data = [0x00] then Inr None
      else if data = [0x01] then Inr (Some [])
      else Inl UnidentifiedImageError)"

definition env_plain :: environment where
  "env_plain = \<lparr>open_rb = example_files, pil = None\<rparr>"

definition env_pillow :: environment where
  "env_pillow = \<lparr>open_rb = example_files, pil = Some example_decoder\<rparr>"

text \<open>A file system whose only file is named \<open>None\<close> and holds the text
  \<open>not an image\<close>; no Pillow.\<close>

definition text_file_named_None :: "string \<Rightarrow> exn + file_obj" where
  "text_file_named_None path =
     (if path = ''None'' then Inr (Inr (ascii ''not an image'')) else Inl FileNotFoundError)"

definition env_text_file :: environment where
  "env_text_file = \<lparr>open_rb = text_file_named_None, pil = None\<rparr>"

section \<open>Properties\<close>

subsection \<open>Auxiliary facts\<close>

lemma startswith_take: "startswith d p \<longleftrightarrow> take (length p) d = p"
  by (induction d p rule: startswith.induct) auto

lemma header_checks_take: "header_checks (take 32 d) = header_checks d"
  by (simp add: header_checks_def startswith_take ascii_def take_eq_Nil)

lemma pillow_absent: "pil env = None \<Longrightarrow> pillow_format env d = None"
  by (simp add: pillow_format_def)

lemma what_header: "what env file (Some d) =
   (Inr (case pillow_format env d of Some fmt \<Rightarrow> Some fmt | None \<Rightarrow> header_checks d), [])"
  by (simp add: what_def obtain_data_def split: option.split)

lemma what_data:
  "fst (obtain_data env file h) = Inr data \<Longrightarrow>
   fst (what env file h) =
     Inr (case pillow_format env data of Some fmt \<Rightarrow> Some fmt | None \<Rightarrow> header_checks data)"
  by (cases "obtain_data env file h") (simp add: what_def split: option.split)

lemma obtain_buffer:
  "buffer_call file h d \<Longrightarrow> \<exists>n. obtain_data env file h = (Inr (take n d), []) \<and> 32 \<le> n"
  unfolding buffer_call_def obtain_data_def read_chunk_def
  by (auto intro: exI[of _ "max 32 (length d)"] exI[of _ 32])

lemma what_buffer:
  assumes "buffer_call file h d" and "pil env = None"
  shows "what env file h = (Inr (header_checks d), [])"
proof -
  from assms(1) obtain n where n: "obtain_data env file h = (Inr (take n d), [])" "32 \<le> n"
    using obtain_buffer by blast
  have "header_checks (take n d) = header_checks d"
    using header_checks_take[of "take n d"] header_checks_take[of d] n(2) by (simp add: min_def)
  then show ?thesis
    using n(1) assms(2) by (simp add: what_def pillow_absent)
qed

lemma take_eq_appendE:
  assumes "take n d = p"
  obtains r where "d = p @ r"
  using assms by (metis append_take_drop_id)

lemma matches_Cons:
  "matches r d \<Longrightarrow> \<exists>x xs. d = x # xs \<and>
     x = (case r of Jpeg \<Rightarrow> 0xFF | Png \<Rightarrow> 0x89 | Gif \<Rightarrow> 0x47 | Bmp \<Rightarrow> 0x42
          | Tiff \<Rightarrow> if x = 0x49 then 0x49 else 0x4D)"
  by (cases d; cases r) (auto simp: ascii_def)

lemma matches_disjoint: "matches r1 d \<Longrightarrow> matches r2 d \<Longrightarrow> r1 = r2"
  by (drule matches_Cons, drule matches_Cons, cases r1; cases r2) (auto split: if_splits)

lemma first_match_Some:
  "first_match rs d = Some l \<Longrightarrow> \<exists>r \<in> set rs. matches r d \<and> l = label r"
  by (induction rs) (auto split: if_splits)

lemma first_match_None: "first_match rs d = None \<longleftrightarrow> (\<forall>r \<in> set rs. \<not> matches r d)"
  by (induction rs) auto

lemma header_checks_first_match: "header_checks d = first_match listed_order d"
  by (cases d) (simp_all add: header_checks_def listed_order_def ascii_def)

lemma first_match_any_order:
  assumes "set rs = set rs'"
  shows "first_match rs d = first_match rs' d"
proof (cases "first_match rs d")
  case None
  then show ?thesis using assms by (metis first_match_None)
next
  case (Some l)
  then obtain r where r: "r \<in> set rs" "matches r d" "l = label r"
    using first_match_Some by blast
  then have "first_match rs' d \<noteq> None"
    using assms first_match_None by blast
  then obtain l' where l': "first_match rs' d = Some l'" by blast
  then obtain r' where "matches r' d" "l' = label r'"
    using first_match_Some by blast
  with r have "l' = l" using matches_disjoint by blast
  with Some l' show ?thesis by simp
qed

subsection \<open>Signatures of JPEG and PNG\<close>

text \<open>
  Claim C1. With Pillow unavailable, \<open>what\<close> returns \<open>"jpeg"\<close> for every byte buffer
  whose first two bytes are \<open>FF D8\<close>, and \<open>"png"\<close> for every byte buffer whose first
  eight bytes are \<open>89 50 4E 47 0D 0A 1A 0A\<close>, however the buffer is passed.
\<close>

theorem what_jpeg_png:
  assumes "pil env = None"
  shows "(buffer_call file h j \<and> take 2 j = [0xFF, 0xD8]
            \<longrightarrow> fst (what env file h) = Inr (Some ''jpeg''))
       \<and> (buffer_call file' h' p \<and> take 8 p = [0x89, 0x50, 0x4E, 0x47, 0x0D, 0x0A, 0x1A, 0x0A]
            \<longrightarrow> fst (what env file' h') = Inr (Some ''png''))"
proof (intro conjI impI)
  assume a: "buffer_call file h j \<and> take 2 j = [0xFF, 0xD8]"
  then obtain r where "j = [0xFF, 0xD8] @ r"
    using take_eq_appendE by blast
  then have "header_checks j = Some ''jpeg''"
    by (simp add: header_checks_def)
  then show "fst (what env file h) = Inr (Some ''jpeg'')"
    using what_buffer [OF conjunct1 [OF a] assms] by simp
next
  assume a: "buffer_call file' h' p \<and> take 8 p = [0x89, 0x50, 0x4E, 0x47, 0x0D, 0x0A, 0x1A, 0x0A]"
  then obtain r where "p = [0x89, 0x50, 0x4E, 0x47, 0x0D, 0x0A, 0x1A, 0x0A] @ r"
    using take_eq_appendE by blast
  then have "header_checks p = Some ''png''"
    by (simp add: header_checks_def ascii_def)
  then show "fst (what env file' h') = Inr (Some ''png'')"
    using what_buffer [OF conjunct1 [OF a] assms] by simp
qed

theorem what_jpeg_png_witness:
  "fst (what \<lparr>open_rb = (\<lambda>p. Inl FileNotFoundError), pil = None\<rparr>
          (BytesArg [0xFF, 0xD8, 0xFF, 0xE0, 0x00, 0x10]) None) = Inr (Some ''jpeg'')
   \<and> fst (what \<lparr>open_rb = (\<lambda>p. Inl FileNotFoundError), pil = None\<rparr>
          (PathArg ''/nonexistent/path'') (Some [0x89, 0x50, 0x4E, 0x47, 0x0D, 0x0A, 0x1A, 0x0A, 0x00]))
       = Inr (Some ''png'')"
  using what_jpeg_png [of "\<lparr>open_rb = (\<lambda>p. Inl FileNotFoundError), pil = None\<rparr>"
      "BytesArg [0xFF, 0xD8, 0xFF, 0xE0, 0x00, 0x10]" None "[0xFF, 0xD8, 0xFF, 0xE0, 0x00, 0x10]"
      "PathArg ''/nonexistent/path''" "Some [0x89, 0x50, 0x4E, 0x47, 0x0D, 0x0A, 0x1A, 0x0A, 0x00]"
      "[0x89, 0x50, 0x4E, 0x47, 0x0D, 0x0A, 0x1A, 0x0A, 0x00]"]
  by (simp add: buffer_call_def)

subsection \<open>Signatures of GIF, BMP and TIFF\<close>

text \<open>
  Claim C2. With Pillow unavailable, for every byte buffer: if its first six bytes are
  \<open>GIF87a\<close> or \<open>GIF89a\<close>, \<open>what\<close> returns \<open>"gif"\<close>; otherwise, if it starts with
  \<open>BM\<close>, \<open>"bmp"\<close>; otherwise, if it starts with \<open>II\<close> or \<open>MM\<close>, \<open>"tiff"\<close>. The
  signatures are written as their bytes.
\<close>

theorem what_gif_bmp_tiff:
  assumes "pil env = None" and "buffer_call file h d"
    and "take 6 d = [0x47, 0x49, 0x46, 0x38, 0x37, 0x61] \<or> take 6 d = [0x47, 0x49, 0x46, 0x38, 0x39, 0x61]
         \<or> take 2 d = [0x42, 0x4D] \<or> take 2 d = [0x49, 0x49] \<or> take 2 d = [0x4D, 0x4D]"
  shows "fst (what env file h) =
     Inr (Some (if take 6 d = [0x47, 0x49, 0x46, 0x38, 0x37, 0x61]
                   \<or> take 6 d = [0x47, 0x49, 0x46, 0x38, 0x39, 0x61] then ''gif''
                else if take 2 d = [0x42, 0x4D] then ''bmp''
                else ''tiff''))"
proof -
  have w: "fst (what env file h) = Inr (header_checks d)"
    using what_buffer [OF assms(2) assms(1)] by simp
  consider (g7) "take 6 d = [0x47, 0x49, 0x46, 0x38, 0x37, 0x61]"
    | (g9) "take 6 d = [0x47, 0x49, 0x46, 0x38, 0x39, 0x61]"
    | (bm) "take 2 d = [0x42, 0x4D]"
    | (ii) "take 2 d = [0x49, 0x49]"
    | (mm) "take 2 d = [0x4D, 0x4D]"
    using assms(3) by blast
  then show ?thesis
  proof cases
    case g7
    then obtain r where "d = [0x47, 0x49, 0x46, 0x38, 0x37, 0x61] @ r"
      using take_eq_appendE by blast
    then show ?thesis unfolding w by (simp add: header_checks_def ascii_def)
  next
    case g9
    then obtain r where "d = [0x47, 0x49, 0x46, 0x38, 0x39, 0x61] @ r"
      using take_eq_appendE by blast
    then show ?thesis unfolding w by (simp add: header_checks_def ascii_def)
  next
    case bm
    then obtain r where "d = [0x42, 0x4D] @ r"
      using take_eq_appendE by blast
    then show ?thesis unfolding w by (simp add: header_checks_def ascii_def)
  next
    case ii
    then obtain r where "d = [0x49, 0x49] @ r"
      using take_eq_appendE by blast
    then show ?thesis unfolding w by (simp add: header_checks_def ascii_def)
  next
    case mm
    then obtain r where "d = [0x4D, 0x4D] @ r"
      using take_eq_appendE by blast
    then show ?thesis unfolding w by (simp add: header_checks_def ascii_def)
  qed
qed

theorem what_gif_bmp_tiff_witness:
  "fst (what env_plain (BytesArg [0x47, 0x49, 0x46, 0x38, 0x39, 0x61, 0x01, 0x00]) None)
     = Inr (Some ''gif'')
   \<and> fst (what env_plain NoneArg (Some [0x42, 0x4D, 0x36, 0x00])) = Inr (Some ''bmp'')
   \<and> fst (what env_plain (BytearrayArg [0x4D, 0x4D, 0x00, 0x2A]) None) = Inr (Some ''tiff'')"
  using
    what_gif_bmp_tiff [of env_plain "BytesArg [0x47, 0x49, 0x46, 0x38, 0x39, 0x61, 0x01, 0x00]"
      None "[0x47, 0x49, 0x46, 0x38, 0x39, 0x61, 0x01, 0x00]"]
    what_gif_bmp_tiff [of env_plain NoneArg "Some [0x42, 0x4D, 0x36, 0x00]" "[0x42, 0x4D, 0x36, 0x00]"]
    what_gif_bmp_tiff [of env_plain "BytearrayArg [0x4D, 0x4D, 0x00, 0x2A]" None
      "[0x4D, 0x4D, 0x00, 0x2A]"]
  by (simp add: env_plain_def buffer_call_def)

subsection \<open>Empty buffers and unreadable files\<close>

text \<open>
  Claim C3. \<open>what\<close> returns \<open>None\<close>, and raises nothing, for an empty byte buffer
  (passed as header or as \<open>file\<close>, or read from an empty file) and for a path whose
  \<open>open\<close> or \<open>read\<close> fails. For the empty buffer Pillow is either absent or, as it
  does on zero bytes, identifies no format: \<open>pillow_format env [] = None\<close>. The
  unreadable path returns before Pillow is consulted.
\<close>

theorem what_empty_or_unreadable:
  "(buffer_call file h [] \<and> pillow_format env [] = None
      \<longrightarrow> what env file h = (Inr None, []))
 \<and> (open_rb env1 p1 = Inr (Inr []) \<and> pillow_format env1 [] = None
      \<longrightarrow> fst (what env1 (PathArg p1) None) = Inr None)
 \<and> (open_rb env2 p2 = Inl e2 \<longrightarrow> fst (what env2 (PathArg p2) None) = Inr None)
 \<and> (open_rb env3 p3 = Inr (Inl e3) \<longrightarrow> fst (what env3 (PathArg p3) None) = Inr None)"
  by (auto simp: what_def obtain_data_def read_chunk_def open_and_read_def read_def
      buffer_call_def header_checks_def)

theorem what_empty_or_unreadable_witness:
  "what env_pillow (PathArg ''/nonexistent/path'') (Some []) = (Inr None, [])
   \<and> fst (what env_pillow (PathArg ''/tmp/empty'') None) = Inr None
   \<and> fst (what env_pillow (PathArg ''/nonexistent/path'') None) = Inr None
   \<and> fst (what env_pillow (PathArg ''/tmp/unreadable'') None) = Inr None"
  using what_empty_or_unreadable [of "PathArg ''/nonexistent/path''" "Some []" env_pillow
      env_pillow "''/tmp/empty''" env_pillow "''/nonexistent/path''" FileNotFoundError
      env_pillow "''/tmp/unreadable''" OSError]
  by (simp add: env_pillow_def example_files_def example_decoder_def buffer_call_def
      pillow_format_def)

subsection \<open>No exception reaches the caller\<close>

text \<open>
  Claim C4. For every file argument, every header, every file system and with Pillow
  present or not, \<open>what\<close> returns a value, a string or \<open>None\<close>: the outcome is never
  an exception.
\<close>

theorem what_total: "\<exists>r. fst (what env file h) = Inr r"
  by (simp add: what_def split: prod.split sum.split option.split)

theorem what_total_witness:
  "\<exists>r. fst (what env_pillow (PathArg ''/tmp/unreadable'') None) = Inr r"
  using what_total [of env_pillow "PathArg ''/tmp/unreadable''" None] by simp

subsection \<open>A header makes the file argument irrelevant\<close>

text \<open>
  Claim C5. When a header is given, also an empty one, \<open>what\<close> opens and reads no
  file, and its result does not depend on the file argument.
\<close>

theorem what_header_frame:
  "what env file1 (Some d) = what env file2 (Some d) \<and> snd (what env file1 (Some d)) = []"
  by (simp add: what_header)

theorem what_header_frame_witness:
  "what env_plain (PathArg ''/nonexistent/path'') (Some []) = what env_plain NoneArg (Some [])
   \<and> snd (what env_plain (PathArg ''/nonexistent/path'') (Some [])) = []"
  by (rule what_header_frame [of env_plain "PathArg ''/nonexistent/path''" "[]" NoneArg])

subsection \<open>Pillow is preferred\<close>

text \<open>
  Claim C6. When Pillow is available it is asked before any header check: if
  \<open>Image.open\<close> succeeds and reports a format, \<open>what\<close> returns it in lower case; if
  \<open>Image.open\<close> raises, \<open>what\<close> goes on to the empty-buffer check and the signature
  checks and raises nothing. \<open>data\<close> is the chunk obtained from the arguments.
\<close>

theorem what_pillow_first:
  assumes "pil env = Some image_open"
  shows "(fst (obtain_data env file h) = Inr data \<and> image_open data = Inr (Some fmt) \<and> fmt \<noteq> []
            \<longrightarrow> fst (what env file h) = Inr (Some (lower fmt)))
       \<and> (fst (obtain_data env file' h') = Inr data' \<and> image_open data' = Inl e
            \<longrightarrow> fst (what env file' h') = Inr (header_checks data'))"
  using assms by (simp add: what_data pillow_format_def)

theorem what_pillow_first_witness:
  "fst (what env_pillow NoneArg (Some [0xFF, 0xD8, 0xFF])) = Inr (Some ''jpeg'')
   \<and> fst (what env_pillow (BytesArg [0x42, 0x4D, 0x36]) None) = Inr (Some ''bmp'')"
proof -
  have l: "lower ''JPEG'' = ''jpeg''"
    by code_simp
  have h: "header_checks [0x42, 0x4D, 0x36] = Some ''bmp''"
    by (simp add: header_checks_def ascii_def)
  show ?thesis
    using what_pillow_first [of env_pillow example_decoder NoneArg "Some [0xFF, 0xD8, 0xFF]"
        "[0xFF, 0xD8, 0xFF]" "''JPEG''" "BytesArg [0x42, 0x4D, 0x36]" None "[0x42, 0x4D, 0x36]"
        UnidentifiedImageError]
    by (simp add: l h env_pillow_def example_decoder_def obtain_data_def read_chunk_def)
qed

subsection \<open>Only the first 32 bytes count\<close>

text \<open>
  Claim C7. With Pillow unavailable, two byte buffers that agree on their first 32
  bytes get the same result from \<open>what\<close>, whether each is passed as header or as
  \<open>file\<close>.
\<close>

theorem what_first_32_bytes:
  assumes "pil env = None" and "buffer_call file1 h1 a" and "buffer_call file2 h2 b"
    and "take 32 a = take 32 b"
  shows "fst (what env file1 h1) = fst (what env file2 h2)"
proof -
  have "header_checks a = header_checks b"
    using header_checks_take [of a] header_checks_take [of b] assms(4) by simp
  then show ?thesis
    using what_buffer [OF assms(2) assms(1)] what_buffer [OF assms(3) assms(1)] by simp
qed

theorem what_first_32_bytes_witness:
  "fst (what env_plain (BytesArg (replicate 32 0x42 @ [0x01])) None)
     = fst (what env_plain NoneArg (Some (replicate 32 0x42 @ [0x02, 0x03])))"
  using what_first_32_bytes [of env_plain "BytesArg (replicate 32 0x42 @ [0x01])" None
      "replicate 32 0x42 @ [0x01]" NoneArg "Some (replicate 32 0x42 @ [0x02, 0x03])"
      "replicate 32 0x42 @ [0x02, 0x03]"]
  by (simp add: env_plain_def buffer_call_def)

subsection \<open>The signature rules are disjoint\<close>

text \<open>
  Claim C8. No byte sequence satisfies two of the five signature rules; hence the
  header checks of the source are a first match over the rules in the listed order,
  and a first match over the rules in any other order gives the same result.
\<close>

theorem signature_rules_disjoint:
  "(r1 \<noteq> r2 \<longrightarrow> \<not> (matches r1 d \<and> matches r2 d))
 \<and> header_checks d = first_match listed_order d
 \<and> (set rs = set listed_order \<longrightarrow> first_match rs d = header_checks d)"
  using matches_disjoint [of r1 d r2] header_checks_first_match [of d]
    first_match_any_order [of rs listed_order d] by auto

theorem signature_rules_disjoint_witness:
  "Gif \<noteq> Tiff
   \<and> \<not> (matches Gif [0x47, 0x49, 0x46, 0x38, 0x39, 0x61] \<and> matches Tiff [0x47, 0x49, 0x46, 0x38, 0x39, 0x61])
   \<and> set [Tiff, Bmp, Gif, Png, Jpeg] = set listed_order
   \<and> first_match [Tiff, Bmp, Gif, Png, Jpeg] [0x47, 0x49, 0x46, 0x38, 0x39, 0x61]
       = header_checks [0x47, 0x49, 0x46, 0x38, 0x39, 0x61]"
proof -
  have s: "set [Tiff, Bmp, Gif, Png, Jpeg] = set listed_order"
    by (auto simp: listed_order_def)
  show ?thesis
    using s signature_rules_disjoint [of Gif Tiff "[0x47, 0x49, 0x46, 0x38, 0x39, 0x61]"
        "[Tiff, Bmp, Gif, Png, Jpeg]"]
    by simp
qed

subsection \<open>Pillow opens the image but names no format\<close>

text \<open>
  Claim C9. If \<open>Image.open\<close> succeeds but \<open>img.format\<close> is \<open>None\<close> or the empty
  string, \<open>what\<close> does not return it: the result is that of the empty-buffer check
  and the signature checks, the same as with a decoder that raises.
\<close>

theorem what_pillow_no_format:
  assumes "pil env = Some image_open" and "fst (obtain_data env file h) = Inr data"
    and "image_open data = Inr None \<or> image_open data = Inr (Some [])"
  shows "fst (what env file h) = Inr (header_checks data)
       \<and> what env file h = what (env\<lparr>pil := Some (\<lambda>d. Inl e)\<rparr>) file h"
proof -
  have "obtain_data (env\<lparr>pil := Some (\<lambda>d. Inl e)\<rparr>) file h = obtain_data env file h"
    by (simp add: obtain_data_def read_chunk_def open_and_read_def split: option.split file_arg.split)
  moreover have "pillow_format env data = None"
    using assms(1,3) by (auto simp: pillow_format_def)
  moreover have "pillow_format (env\<lparr>pil := Some (\<lambda>d. Inl e)\<rparr>) data = None"
    by (simp add: pillow_format_def)
  ultimately show ?thesis
    using assms(2) by (cases "obtain_data env file h") (simp add: what_def)
qed

theorem what_pillow_no_format_witness:
  "fst (what env_pillow (BytesArg [0x00]) None) = Inr (header_checks [0x00])
   \<and> what env_pillow (BytesArg [0x00]) None
       = what (env_pillow\<lparr>pil := Some (\<lambda>d. Inl UnidentifiedImageError)\<rparr>) (BytesArg [0x00]) None
   \<and> fst (what env_pillow NoneArg (Some [0x01])) = Inr (header_checks [0x01])"
proof -
  have p: "pil env_pillow = Some example_decoder"
    by (simp add: env_pillow_def)
  have o0: "fst (obtain_data env_pillow (BytesArg [0x00]) None) = Inr [0x00]"
    by (simp add: obtain_data_def read_chunk_def)
  have o1: "fst (obtain_data env_pillow NoneArg (Some [0x01])) = Inr [0x01]"
    by (simp add: obtain_data_def)
  have d0: "example_decoder [0x00] = Inr None \<or> example_decoder [0x00] = Inr (Some [])"
    by (simp add: example_decoder_def)
  have d1: "example_decoder [0x01] = Inr None \<or> example_decoder [0x01] = Inr (Some [])"
    by (simp add: example_decoder_def)
  show ?thesis
    using what_pillow_no_format [OF p o0 d0, of UnidentifiedImageError]
      what_pillow_no_format [OF p o1 d1, of UnidentifiedImageError]
    by blast
qed

subsection \<open>Neither file nor header\<close>

text \<open>
  With \<open>file\<close> and \<open>h\<close> both \<open>None\<close>, an absent result does not tell that \<open>open\<close> or
  \<open>read\<close> failed: where a readable file named \<open>None\<close> holds \<open>not an image\<close>, line 46
  reads its bytes, no signature matches, and line 77 returns \<open>None\<close>.
\<close>

theorem what_no_arguments_absent_after_read:
  "open_rb env_text_file ''None'' = Inr (Inr (ascii ''not an image''))
   \<and> read (Inr (ascii ''not an image'')) 32 = Inr (ascii ''not an image'')
   \<and> what env_text_file NoneArg None = (Inr None, [Open ''None'', Read 32, Close])"
  by (simp add: env_text_file_def text_file_named_None_def what_def obtain_data_def
      read_chunk_def open_and_read_def read_def pillow_format_def header_checks_def ascii_def)

text \<open>
  Claim C10, amended. With \<open>file\<close> and \<open>h\<close> both \<open>None\<close>, \<open>what\<close> does not return at
  once: it behaves as for the path \<open>"None"\<close>, which it tries to open and read. It
  returns \<open>None\<close> when that \<open>open\<close> or \<open>read\<close> raises; when both succeed, it returns
  what Pillow and the header checks give for the first 32 bytes read, as for a header
  of those bytes, and that may be \<open>None\<close> as well.
\<close>

theorem what_no_arguments:
  "what env NoneArg None = what env (PathArg ''None'') None
 \<and> what env NoneArg None =
     (case open_rb env ''None'' of
        Inl e \<Rightarrow> (Inr None, [Open ''None''])
      | Inr (Inl e) \<Rightarrow> (Inr None, [Open ''None'', Read 32, Close])
      | Inr (Inr content) \<Rightarrow>
          (fst (what env file (Some (take 32 content))), [Open ''None'', Read 32, Close]))"
  by (simp add: what_def obtain_data_def read_chunk_def open_and_read_def read_def
      split: sum.split option.split)

theorem what_no_arguments_witness:
  "what env_plain NoneArg None = (Inr (Some ''png''), [Open ''None'', Read 32, Close])
   \<and> what (env_plain\<lparr>open_rb := \<lambda>p. Inl FileNotFoundError\<rparr>) NoneArg None
       = (Inr None, [Open ''None''])
   \<and> what (env_plain\<lparr>open_rb := \<lambda>p. Inr (Inl PermissionError)\<rparr>) NoneArg None
       = (Inr None, [Open ''None'', Read 32, Close])"
proof -
  have h: "fst (what env_plain NoneArg (Some [0x89, 0x50, 0x4E, 0x47, 0x0D, 0x0A, 0x1A, 0x0A, 0x00, 0x00]))
      = Inr (Some ''png'')"
    by (simp add: what_header env_plain_def pillow_format_def header_checks_def ascii_def)
  have f: "open_rb env_plain ''None''
      = Inr (Inr [0x89, 0x50, 0x4E, 0x47, 0x0D, 0x0A, 0x1A, 0x0A, 0x00, 0x00])"
    by (simp add: env_plain_def example_files_def)
  have g: "open_rb (env_plain\<lparr>open_rb := \<lambda>p. Inl FileNotFoundError\<rparr>) ''None''
      = Inl FileNotFoundError"
    by simp
  have k: "open_rb (env_plain\<lparr>open_rb := \<lambda>p. Inr (Inl PermissionError)\<rparr>) ''None''
      = Inr (Inl PermissionError)"
    by simp
  have a: "what env_plain NoneArg None = (Inr (Some ''png''), [Open ''None'', Read 32, Close])"
    using what_no_arguments [of env_plain NoneArg, THEN conjunct2]
    by (simp add: f h)
  have b: "what (env_plain\<lparr>open_rb := \<lambda>p. Inl FileNotFoundError\<rparr>) NoneArg None
      = (Inr None, [Open ''None''])"
    using what_no_arguments [of "env_plain\<lparr>open_rb := \<lambda>p. Inl FileNotFoundError\<rparr>" NoneArg,
        THEN conjunct2]
    by (simp only: g sum.case)
  have c: "what (env_plain\<lparr>open_rb := \<lambda>p. Inr (Inl PermissionError)\<rparr>) NoneArg None
      = (Inr None, [Open ''None'', Read 32, Close])"
    using what_no_arguments [of "env_plain\<lparr>open_rb := \<lambda>p. Inr (Inl PermissionError)\<rparr>" NoneArg,
        THEN conjunct2]
    by (simp only: k sum.case)
  from a b c show ?thesis by blast
qed

end
